theory Spec2Isabelle
  imports Main "HOL-Library.Sublist"
begin

section \<open>Text primitives of the Python runtime\<close>

text \<open>
  Python text is modelled as \<open>string\<close>. The functions of this section give what
  \<^verbatim>\<open>str.upper\<close>, \<^verbatim>\<open>str.lower\<close>, \<^verbatim>\<open>str.isspace\<close>, \<^verbatim>\<open>str.split\<close>, \<^verbatim>\<open>str.capitalize\<close>
  and the regular-expression classes \<^verbatim>\<open>\s\<close> and \<^verbatim>\<open>[a-zA-Z]\<close> do on ASCII text, which is
  what the registry serves. Outside ASCII Python does more: \<^verbatim>\<open>str.upper\<close> maps the long s
  (U+017F) to \<^verbatim>\<open>S\<close>, \<^verbatim>\<open>\s\<close> and \<^verbatim>\<open>str.split\<close> take U+0085, U+00A0 and further characters
  as white space, and \<^verbatim>\<open>[a-zA-Z]\<close> under \<^verbatim>\<open>re.I\<close> matches U+0130, U+0131, U+017F and
  U+212A. Such characters are outside the model, where a character that is not ASCII is
  left unchanged and is neither a letter nor white space. The texts on which the
  properties below evaluate the name clean-up are ASCII, and of \<open>upper\<close> the selection
  needs only that it leaves \<^verbatim>\<open>NASDAQ\<close> and \<^verbatim>\<open>NYSE\<close> as they are.
\<close>

definition ascii_lowercase :: string where
  "ascii_lowercase = ''abcdefghijklmnopqrstuvwxyz''"

definition ascii_uppercase :: string where
  "ascii_uppercase = ''ABCDEFGHIJKLMNOPQRSTUVWXYZ''"

definition upper_chr :: "char \<Rightarrow> char" where
  "upper_chr c =
     (case map_of (zip ascii_lowercase ascii_uppercase) c of None \<Rightarrow> c | Some u \<Rightarrow> u)"

definition lower_chr :: "char \<Rightarrow> char" where
  "lower_chr c =
     (case map_of (zip ascii_uppercase ascii_lowercase) c of None \<Rightarrow> c | Some l \<Rightarrow> l)"

definition upper :: "string \<Rightarrow> string" where
  \<comment> \<open>\<^verbatim>\<open>str.upper\<close>\<close>
  "upper s = map upper_chr s"

definition lower :: "string \<Rightarrow> string" where
  \<comment> \<open>\<^verbatim>\<open>str.lower\<close>\<close>
  "lower s = map lower_chr s"

definition is_letter :: "char \<Rightarrow> bool" where
  \<comment> \<open>the class \<^verbatim>\<open>[a-zA-Z]\<close>\<close>
  "is_letter c = (c \<in> set (ascii_lowercase @ ascii_uppercase))"

definition is_space :: "char \<Rightarrow> bool" where
  \<comment> \<open>\<^verbatim>\<open>\s\<close> and \<^verbatim>\<open>str.isspace\<close>: tab, line feed, vertical tab, form feed, carriage
      return, the four separators 0x1C to 0x1F, and the blank\<close>
  "is_space c =
     (c \<in> set [CHR 0x09, CHR 0x0A, CHR 0x0B, CHR 0x0C, CHR 0x0D,
                CHR 0x1C, CHR 0x1D, CHR 0x1E, CHR 0x1F, CHR '' ''])"

definition is_sep :: "char \<Rightarrow> bool" where
  \<comment> \<open>the group \<^verbatim>\<open>(\/|\\)\<close>: a slash or a backslash\<close>
  "is_sep c = (c = CHR ''/'' \<or> c = CHR 0x5C)"

definition is_digit :: "char \<Rightarrow> bool" where
  "is_digit c = (c \<in> set ''0123456789'')"

definition digit_chr :: "nat \<Rightarrow> char" where
  "digit_chr d = ''0123456789'' ! (d mod 10)"

function str_nat :: "nat \<Rightarrow> string" where
  "str_nat n = (if n < 10 then [digit_chr n] else str_nat (n div 10) @ [digit_chr (n mod 10)])"
  by pat_completeness auto
termination
  by (relation "measure id") auto

declare str_nat.simps [simp del]

definition str_int :: "int \<Rightarrow> string" where
  \<comment> \<open>\<^verbatim>\<open>str\<close> of a Python integer\<close>
  "str_int i = (if i < 0 then CHR ''-'' # str_nat (nat (- i)) else str_nat (nat i))"

definition digit_val :: "char \<Rightarrow> nat" where
  "digit_val c = (case map_of (zip ''0123456789'' [0 ..< 10]) c of None \<Rightarrow> 0 | Some d \<Rightarrow> d)"

definition int_of_digits :: "string \<Rightarrow> int" where
  \<comment> \<open>the number a string of decimal digits denotes, leading zeros allowed\<close>
  "int_of_digits s = int (foldl (\<lambda>a c. 10 * a + digit_val c) 0 s)"

function split_ws :: "string \<Rightarrow> string list" where
  \<comment> \<open>\<^verbatim>\<open>str.split()\<close> without a separator: the maximal runs of characters that are
      not white space\<close>
  "split_ws s =
     (case dropWhile is_space s of
        [] \<Rightarrow> []
      | c # cs \<Rightarrow> (c # takeWhile (\<lambda>x. \<not> is_space x) cs)
                    # split_ws (dropWhile (\<lambda>x. \<not> is_space x) cs))"
  by pat_completeness auto
termination
proof (relation "measure length")
  fix s :: string and c cs
  assume "dropWhile is_space s = c # cs"
  then have "length cs < length (dropWhile is_space s)"
    by simp
  also have "\<dots> \<le> length s"
    by (rule length_dropWhile_le)
  finally have "length cs < length s" .
  moreover have "length (dropWhile (\<lambda>x. \<not> is_space x) cs) \<le> length cs"
    by (rule length_dropWhile_le)
  ultimately show "(dropWhile (\<lambda>x. \<not> is_space x) cs, s) \<in> measure length"
    by simp
qed simp

declare split_ws.simps [simp del]

definition capitalize :: "string \<Rightarrow> string" where
  \<comment> \<open>\<^verbatim>\<open>str.capitalize\<close>: first character upper case, the rest lower case\<close>
  "capitalize w = (case w of [] \<Rightarrow> [] | c # cs \<Rightarrow> upper_chr c # lower cs)"

fun join :: "string \<Rightarrow> string list \<Rightarrow> string" where
  \<comment> \<open>\<^verbatim>\<open>sep.join(ws)\<close>\<close>
  "join sep [] = []"
| "join sep [w] = w"
| "join sep (w # ws) = w @ sep @ join sep ws"

definition capwords :: "string \<Rightarrow> string" where
  \<comment> \<open>\<^verbatim>\<open>string.capwords(s)\<close> is \<^verbatim>\<open>' '.join(x.capitalize() for x in s.split())\<close>\<close>
  "capwords s = join '' '' (map capitalize (split_ws s))"

function regex_sub :: "string \<Rightarrow> string" where
  \<comment> \<open>\<^verbatim>\<open>re.compile(r'\s?(\/|\\)[a-zA-Z]*', flags=re.I).sub('', x)\<close>: scanning from the left,
      a match starts at a separator, or at one white-space character directly before a
      separator, and takes every letter that follows; the match is deleted and the scan
      goes on behind it; any other character is kept\<close>
  "regex_sub [] = []"
| "regex_sub (c # cs) =
     (if is_space c \<and> (case cs of [] \<Rightarrow> False | d # _ \<Rightarrow> is_sep d)
      then regex_sub (dropWhile is_letter (tl cs))
      else if is_sep c then regex_sub (dropWhile is_letter cs)
      else c # regex_sub cs)"
  by pat_completeness auto
termination
proof (relation "measure length")
  fix c :: char and cs :: string
  have "length (dropWhile is_letter (tl cs)) \<le> length (tl cs)"
    by (rule length_dropWhile_le)
  then show "(dropWhile is_letter (tl cs), c # cs) \<in> measure length"
    by simp
  have "length (dropWhile is_letter cs) \<le> length cs"
    by (rule length_dropWhile_le)
  then show "(dropWhile is_letter cs, c # cs) \<in> measure length"
    by simp
qed simp_all

declare regex_sub.simps [simp del]

section \<open>The registry listing: \<^verbatim>\<open>financialdatapy/cik.py\<close>\<close>

datatype py_error = TypeError | ValueError

text \<open>
  One row of \<^verbatim>\<open>cik_data['data']\<close> under the columns \<^verbatim>\<open>cik\<close>, \<^verbatim>\<open>name\<close>, \<^verbatim>\<open>ticker\<close>,
  \<^verbatim>\<open>exchange\<close>. The identifier is a JSON integer and the ticker a JSON string; the name
  and the exchange may be \<^verbatim>\<open>null\<close>.
\<close>

record raw_record =
  raw_cik :: int
  raw_name :: "string option"
  raw_ticker :: string
  exchange :: "string option"

text \<open>
  A row of the frame once the \<^verbatim>\<open>exchange\<close> column is dropped. The types of the
  \<^verbatim>\<open>cik\<close> and \<^verbatim>\<open>name\<close> columns change along \<^verbatim>\<open>get_cik\<close>, so they are parameters.
\<close>

record ('c, 'n) row =
  cik :: 'c
  name :: 'n
  ticker :: string

type_synonym listing_record = "(string, string) row"

definition upper_exchange :: "raw_record list \<Rightarrow> raw_record list" where
  \<comment> \<open>\<^verbatim>\<open>cik_list['exchange'] = cik_list['exchange'].str.upper()\<close>; a null stays null\<close>
  "upper_exchange df = map (\<lambda>r. r\<lparr>exchange := map_option upper (exchange r)\<rparr>) df"

definition select_exchange :: "raw_record list \<Rightarrow> raw_record list" where
  \<comment> \<open>the rows whose exchange is \<^verbatim>\<open>'NASDAQ'\<close> or \<^verbatim>\<open>'NYSE'\<close>, in their order\<close>
  "select_exchange df =
     filter (\<lambda>r. exchange r = Some ''NASDAQ'' \<or> exchange r = Some ''NYSE'') df"

definition drop_exchange :: "raw_record list \<Rightarrow> (int, string option) row list" where
  \<comment> \<open>\<^verbatim>\<open>cik_list.drop('exchange', axis=1)\<close>\<close>
  "drop_exchange df =
     map (\<lambda>r. \<lparr>cik = raw_cik r, name = raw_name r, ticker = raw_ticker r\<rparr>) df"

definition astype_str :: "(int, 'n) row list \<Rightarrow> (string, 'n) row list" where
  \<comment> \<open>\<^verbatim>\<open>cik_list['cik'] = cik_list['cik'].astype(str)\<close>\<close>
  "astype_str df =
     map (\<lambda>r. \<lparr>cik = str_int (cik r), name = name r, ticker = ticker r\<rparr>) df"

fun sub_names :: "('c, string option) row list \<Rightarrow> py_error + ('c, string) row list" where
  \<comment> \<open>\<^verbatim>\<open>[regex.sub('', x) for x in cik_list['name']]\<close>: \<^verbatim>\<open>sub\<close> raises \<^verbatim>\<open>TypeError\<close> on
      a value that is not a string\<close>
  "sub_names [] = Inr []"
| "sub_names (r # rs) =
     (case name r of
        None \<Rightarrow> Inl TypeError
      | Some x \<Rightarrow>
          (case sub_names rs of
             Inl e \<Rightarrow> Inl e
           | Inr rs' \<Rightarrow> Inr (\<lparr>cik = cik r, name = regex_sub x, ticker = ticker r\<rparr> # rs')))"

definition capwords_names :: "('c, string) row list \<Rightarrow> ('c, string) row list" where
  \<comment> \<open>\<^verbatim>\<open>cik_list['name'] = [capwords(x) for x in cik_list['name']]\<close>\<close>
  "capwords_names df = map (\<lambda>r. r\<lparr>name := capwords (name r)\<rparr>) df"

definition get_cik :: "raw_record list \<Rightarrow> py_error + listing_record list" where
  \<comment> \<open>the argument is the decoded \<^verbatim>\<open>cik_data['data']\<close> that the request returned\<close>
  "get_cik cik_data =
     (case sub_names (astype_str (drop_exchange (select_exchange (upper_exchange cik_data)))) of
        Inl e \<Rightarrow> Inl e
      | Inr df \<Rightarrow> Inr (capwords_names df))"

definition search_cik :: "listing_record list \<Rightarrow> string \<Rightarrow> py_error + string" where
  \<comment> \<open>\<^verbatim>\<open>.item()\<close> raises \<^verbatim>\<open>ValueError\<close> unless exactly one row has the ticker;
      \<^verbatim>\<open>'0' * zeros\<close> is empty when \<^verbatim>\<open>zeros\<close> is negative\<close>
  "search_cik cik_list t =
     (case filter (\<lambda>r. ticker r = upper t) cik_list of
        [r] \<Rightarrow>
          (let zeros = 10 - int (length (cik r))
           in Inr (replicate (nat zeros) CHR ''0'' @ cik r))
      | _ \<Rightarrow> Inl ValueError)"

subsection \<open>What \<^verbatim>\<open>get_cik\<close> computes, row by row\<close>

definition kept :: "raw_record \<Rightarrow> bool" where
  \<comment> \<open>the row passes the upper-casing of its exchange followed by the selection\<close>
  "kept r =
     (case exchange r of
        None \<Rightarrow> False
      | Some e \<Rightarrow> upper e = ''NASDAQ'' \<or> upper e = ''NYSE'')"

definition listing_of :: "raw_record \<Rightarrow> listing_record" where
  \<comment> \<open>the output row of a selected row whose name is a string\<close>
  "listing_of r =
     \<lparr>cik = str_int (raw_cik r),
      name = (case raw_name r of None \<Rightarrow> [] | Some x \<Rightarrow> capwords (regex_sub x)),
      ticker = raw_ticker r\<rparr>"

subsection \<open>The selection in the words of the specification\<close>

definition eq_ci :: "string \<Rightarrow> string \<Rightarrow> bool" where
  \<comment> \<open>equality of two texts letter case aside: they are equal once both are in upper
      case\<close>
  "eq_ci a b = (upper a = upper b)"

definition allow_list :: "string list" where
  "allow_list = [''NASDAQ'', ''NYSE'']"

definition on_allow_list :: "raw_record \<Rightarrow> bool" where
  \<comment> \<open>the exchange, compared case-insensitively, is one of the allow-list\<close>
  "on_allow_list r =
     (case exchange r of None \<Rightarrow> False | Some e \<Rightarrow> list_ex (eq_ci e) allow_list)"

subsection \<open>Rows of the registry used as examples\<close>

definition apple_raw :: raw_record where
  "apple_raw =
     \<lparr>raw_cik = 320193, raw_name = Some ''Apple Inc.'', raw_ticker = ''AAPL'',
      exchange = Some ''Nasdaq''\<rparr>"

definition qualcomm_name :: string where
  \<comment> \<open>\<^verbatim>\<open>Qualcomm Inc\De\<close>, with one backslash\<close>
  "qualcomm_name = ''Qualcomm Inc'' @ [CHR 0x5C] @ ''De''"

definition qualcomm_raw :: raw_record where
  "qualcomm_raw =
     \<lparr>raw_cik = 1652044, raw_name = Some qualcomm_name, raw_ticker = ''qcom'',
      exchange = Some ''nasdaq''\<rparr>"

definition otc_raw :: raw_record where
  "otc_raw =
     \<lparr>raw_cik = 1103795, raw_name = Some ''Otc Markets Group Inc.'', raw_ticker = ''OTCM'',
      exchange = Some ''OTC''\<rparr>"

definition first_dup_raw :: raw_record where
  "first_dup_raw =
     \<lparr>raw_cik = 1, raw_name = Some ''First Co'', raw_ticker = ''DUP'',
      exchange = Some ''NYSE''\<rparr>"

definition second_dup_raw :: raw_record where
  "second_dup_raw =
     \<lparr>raw_cik = 2, raw_name = Some ''Second Co'', raw_ticker = ''DUP'',
      exchange = Some ''NASDAQ''\<rparr>"

definition nameless_raw :: raw_record where
  \<comment> \<open>a row whose name is \<^verbatim>\<open>null\<close>\<close>
  "nameless_raw =
     \<lparr>raw_cik = 3, raw_name = None, raw_ticker = ''NONE'', exchange = Some ''NYSE''\<rparr>"

definition unlisted_raw :: raw_record where
  \<comment> \<open>a row whose exchange is \<^verbatim>\<open>null\<close>\<close>
  "unlisted_raw =
     \<lparr>raw_cik = 4, raw_name = Some ''Unlisted Co'', raw_ticker = ''UNL'', exchange = None\<rparr>"

definition alfa_raw :: raw_record where
  \<comment> \<open>a name with a separator and a token in its middle\<close>
  "alfa_raw =
     \<lparr>raw_cik = 5, raw_name = Some ''Alfa/Sub Corp'', raw_ticker = ''ALFA'',
      exchange = Some ''NYSE''\<rparr>"

section \<open>Choosing the stock exchange: \<^verbatim>\<open>financialdatapy/market.py\<close>\<close>

text \<open>
  The classes \<^verbatim>\<open>CikList\<close>, \<^verbatim>\<open>UsFinancials\<close>, \<^verbatim>\<open>KorFinancials\<close>, \<^verbatim>\<open>UsMarket\<close> and
  \<^verbatim>\<open>KorMarket\<close> are imported by the module; what they return or raise is a parameter of
  the model. \<open>Raised x\<close> is an exception \<open>x\<close> that one of them raised, \<open>NotAvailable\<close> the
  exception of the \<^verbatim>\<open>else\<close> branches of \<^verbatim>\<open>Market\<close>. The field \<open>cik_list_search_cik\<close> is
  \<^verbatim>\<open>CikList()\<close> followed by \<^verbatim>\<open>search_cik(symbol)\<close> on it; a method that ends without
  \<^verbatim>\<open>return\<close> gives \<open>None\<close>.
\<close>

datatype 'x failure = NotAvailable | Raised 'x

definition call :: "'x + 'a \<Rightarrow> ('a \<Rightarrow> 'x failure + 'b) \<Rightarrow> 'x failure + 'b" where
  \<comment> \<open>run a collaborator and go on with its value; its exception ends the method\<close>
  "call r k = (case r of Inl x \<Rightarrow> Inl (Raised x) | Inr a \<Rightarrow> k a)"

record market =
  country_code :: string

definition Market :: "string \<Rightarrow> market" where
  \<comment> \<open>\<^verbatim>\<open>Market.__init__\<close>\<close>
  "Market c = \<lparr>country_code = upper c\<rparr>"

record ('x, 'm, 'df) financials =
  cik_list_search_cik :: "string \<Rightarrow> 'x + string"
  UsFinancials :: "string \<Rightarrow> string \<Rightarrow> string \<Rightarrow> string \<Rightarrow> 'x + 'm"
  KorFinancials :: "string \<Rightarrow> string \<Rightarrow> string \<Rightarrow> 'x + 'm"
  get_standard_financials :: "'m \<Rightarrow> 'x + 'df"
  get_financials :: "'m \<Rightarrow> 'x + 'df"
  open_report :: "'m \<Rightarrow> 'x + unit"

definition report ::
  "('x, 'm, 'df) financials \<Rightarrow> 'm \<Rightarrow> bool \<Rightarrow> string option \<Rightarrow> 'x failure + 'df option" where
  \<comment> \<open>the three statements both branches end with; after \<^verbatim>\<open>open_report\<close> the method
      returns \<^verbatim>\<open>None\<close>\<close>
  "report env m web type_of_financial =
     (if type_of_financial = Some ''standard''
      then call (get_standard_financials env m) (\<lambda>df. Inr (Some df))
      else if \<not> web then call (get_financials env m) (\<lambda>df. Inr (Some df))
      else call (open_report env m) (\<lambda>_. Inr None))"

definition financial_statement ::
  "('x, 'm, 'df) financials \<Rightarrow> market \<Rightarrow> string \<Rightarrow> string \<Rightarrow> string \<Rightarrow> bool \<Rightarrow> string option
     \<Rightarrow> 'x failure + 'df option" where
  "financial_statement env self symbol financial period web type_of_financial =
     (if country_code self = ''USA''
      then call (cik_list_search_cik env symbol) (\<lambda>comp_cik.
           call (UsFinancials env symbol comp_cik financial period) (\<lambda>m.
           report env m web type_of_financial))
      else if country_code self = ''KOR''
      then call (KorFinancials env symbol financial period) (\<lambda>m.
           report env m web type_of_financial)
      else Inl NotAvailable)"

record ('x, 'd, 'p) prices =
  UsMarket :: "string \<Rightarrow> 'd \<Rightarrow> 'd \<Rightarrow> 'x + 'p"
  KorMarket :: "string \<Rightarrow> 'd \<Rightarrow> 'd \<Rightarrow> 'x + 'p"

definition historical_price ::
  "('x, 'd, 'p) prices \<Rightarrow> market \<Rightarrow> string \<Rightarrow> 'd \<Rightarrow> 'd \<Rightarrow> 'x failure + 'p" where
  "historical_price env self symbol start end =
     (if country_code self = ''USA''
      then call (UsMarket env symbol start end) Inr
      else if country_code self = ''KOR''
      then call (KorMarket env symbol start end) Inr
      else Inl NotAvailable)"

subsection \<open>Collaborators used as examples\<close>

definition demo_financials :: "(string, string, string) financials" where
  "demo_financials =
     \<lparr>cik_list_search_cik = (\<lambda>symbol. Inr ''0000320193''),
      UsFinancials = (\<lambda>symbol comp_cik financial period. Inr (''us:'' @ symbol)),
      KorFinancials = (\<lambda>symbol financial period. Inr (''kor:'' @ symbol)),
      get_standard_financials = (\<lambda>m. Inr (''standard '' @ m)),
      get_financials = (\<lambda>m. Inr (''reported '' @ m)),
      open_report = (\<lambda>m. Inr ())\<rparr>"

definition demo_prices :: "(string, nat, string) prices" where
  "demo_prices =
     \<lparr>UsMarket = (\<lambda>symbol start end. Inr (''us:'' @ symbol)),
      KorMarket = (\<lambda>symbol start end. Inr (''kor:'' @ symbol))\<rparr>"

section \<open>The scripts: \<^verbatim>\<open>scripts/connect.py\<close> and \<^verbatim>\<open>scripts/main.py\<close>\<close>

text \<open>
  An exception of the scripts is \<open>Exception m\<close>, an instance of \<^verbatim>\<open>Exception\<close> or of one of
  its subclasses whose \<^verbatim>\<open>str\<close> is \<open>m\<close>, or \<open>BaseException m\<close>, one that is not under
  \<^verbatim>\<open>Exception\<close> (\<^verbatim>\<open>KeyboardInterrupt\<close>, \<^verbatim>\<open>SystemExit\<close>): \<^verbatim>\<open>except Exception\<close> catches the
  first kind only.
\<close>

datatype py_exception = Exception string | BaseException string

text \<open>The configuration file holds a mapping of mappings of strings.\<close>

type_synonym yaml = "string \<rightharpoonup> (string \<rightharpoonup> string)"

definition key_error :: "string \<Rightarrow> py_exception" where
  \<comment> \<open>\<^verbatim>\<open>KeyError(k)\<close>, whose \<^verbatim>\<open>str\<close> is the key in quotes\<close>
  "key_error k = Exception ([CHR 0x27] @ k @ [CHR 0x27])"

definition connect_db ::
  "py_exception + yaml \<Rightarrow> (string \<Rightarrow> string \<Rightarrow> string \<Rightarrow> py_exception + 'db) \<Rightarrow> string list
     \<Rightarrow> (py_exception + 'db option) \<times> string list" where
  \<comment> \<open>\<open>load\<close> is what opening and parsing \<^verbatim>\<open>config/config.yml\<close> gives, \<open>Database\<close> the
      constructor of the imported class, the string list the lines printed so far; the
      result \<open>Inr None\<close> is the function ending without \<^verbatim>\<open>return\<close>\<close>
  "connect_db load Database out =
     (case load of
        Inl e \<Rightarrow> (Inl e, out)
      | Inr config \<Rightarrow>
          (case config ''user'' of
             None \<Rightarrow> (Inl (key_error ''user''), out)
           | Some user \<Rightarrow>
               (case user ''mysql_password'' of
                  None \<Rightarrow> (Inl (key_error ''mysql_password''), out)
                | Some mysql_pw \<Rightarrow>
                    (case Database mysql_pw ''us_stock'' ''stock_list'' of
                       Inr db \<Rightarrow> (Inr (Some db), out)
                     | Inl (Exception e) \<Rightarrow> (Inr None, out @ [e])
                     | Inl (BaseException e) \<Rightarrow> (Inl (BaseException e), out)))))"

text \<open>
  The main script. The modules \<^verbatim>\<open>stocklist\<close> and \<^verbatim>\<open>database\<close> are imported; what their
  functions return or raise is a parameter of the model. The world of the script is the
  persisted table and the lines printed. \<^verbatim>\<open>read_db\<close> is given the table and returns what
  it reads of it; the script calls nothing that is given the table to write.
\<close>

record ('l, 'c) world =
  snapshot :: 'l
  stdout :: "'c list"

record ('l, 'c, 'db) stock_env =
  stocklist_get_stock_list :: "py_exception + 'l"
  database_Database :: "string \<Rightarrow> string \<Rightarrow> py_exception + 'db"
  db_read_db :: "'db \<Rightarrow> 'l \<Rightarrow> py_exception + 'l"
  stocklist_check_diff :: "'l \<Rightarrow> 'l \<Rightarrow> py_exception + 'c"

definition main ::
  "('l, 'c, 'db) stock_env \<Rightarrow> string \<Rightarrow> ('l, 'c) world \<Rightarrow> (py_exception + unit) \<times> ('l, 'c) world"
  where
  \<comment> \<open>the string is \<^verbatim>\<open>config('SQL_password', default='')\<close>\<close>
  "main env SQL_password w =
     (case stocklist_get_stock_list env of
        Inl e \<Rightarrow> (Inl e, w)
      | Inr latest_stock_list \<Rightarrow>
          (case database_Database env SQL_password ''us_stock'' of
             Inl e \<Rightarrow> (Inl e, w)
           | Inr db \<Rightarrow>
               (case db_read_db env db (snapshot w) of
                  Inl e \<Rightarrow> (Inl e, w)
                | Inr old_stock_list \<Rightarrow>
                    (case stocklist_check_diff env old_stock_list latest_stock_list of
                       Inl e \<Rightarrow> (Inl e, w)
                     | Inr diff \<Rightarrow> (Inr (), w\<lparr>stdout := stdout w @ [diff]\<rparr>)))))"

subsection \<open>Collaborators used as examples\<close>

definition demo_config :: yaml where
  "demo_config = [''user'' \<mapsto> [''mysql_password'' \<mapsto> ''secret'']]"

definition refusing_Database :: "string \<Rightarrow> string \<Rightarrow> string \<Rightarrow> py_exception + unit" where
  \<comment> \<open>a constructor that cannot connect\<close>
  "refusing_Database pw db_name table_name = Inl (Exception ''Access denied'')"

definition demo_stock_env :: "(string list, string list, unit) stock_env" where
  \<comment> \<open>listings as lists of tickers; the difference printed is the list of new tickers\<close>
  "demo_stock_env =
     \<lparr>stocklist_get_stock_list = Inr [''AAPL'', ''AMZN''],
      database_Database = (\<lambda>pw db_name. Inr ()),
      db_read_db = (\<lambda>db table. Inr table),
      stocklist_check_diff = (\<lambda>old latest. Inr (filter (\<lambda>t. t \<notin> set old) latest))\<rparr>"

section \<open>The differ\<close>

text \<open>
  The main script calls \<^verbatim>\<open>stocklist.check_diff\<close>; the module \<^verbatim>\<open>stocklist\<close> is not among the
  sources. A listing is a list of records of identifier, name and ticker, the identifier
  in the field \<^verbatim>\<open>cik\<close>; it is canonical when no two of its records share a ticker.
\<close>

record changeset =
  added :: "listing_record set"
  removed :: "listing_record set"
  changed :: "(listing_record \<times> listing_record) set"

definition canonical :: "listing_record list \<Rightarrow> bool" where
  "canonical X = distinct (map ticker X)"

definition has_ticker :: "listing_record list \<Rightarrow> string \<Rightarrow> bool" where
  "has_ticker X t = list_ex (\<lambda>r. ticker r = t) X"

definition check_diff :: "listing_record list \<Rightarrow> listing_record list \<Rightarrow> changeset" where
  \<comment> \<open>Modelled from the spec: \<^verbatim>\<open>check_diff\<close> of the module \<^verbatim>\<open>stocklist\<close>, which is missing
      from the sources, after section 4.2: \<^verbatim>\<open>added\<close> are the records of \<^verbatim>\<open>latest\<close> whose
      ticker has no match in \<^verbatim>\<open>prior\<close>, \<^verbatim>\<open>removed\<close> the records of \<^verbatim>\<open>prior\<close> whose ticker
      has no match in \<^verbatim>\<open>latest\<close>, \<^verbatim>\<open>changed\<close> the pairs whose ticker matches in both while
      the identifier or the name differs\<close>
  "check_diff prior latest =
     \<lparr>added = set (filter (\<lambda>r. \<not> has_ticker prior (ticker r)) latest),
      removed = set (filter (\<lambda>r. \<not> has_ticker latest (ticker r)) prior),
      changed =
        set (filter (\<lambda>(p, l). ticker p = ticker l \<and> (cik p \<noteq> cik l \<or> name p \<noteq> name l))
               (List.product prior latest))\<rparr>"

definition apple_listing :: listing_record where
  "apple_listing = \<lparr>cik = ''0000320193'', name = ''Apple Inc'', ticker = ''AAPL''\<rparr>"

definition amazon_listing :: listing_record where
  "amazon_listing = \<lparr>cik = ''0001018724'', name = ''Amazon Com Inc'', ticker = ''AMZN''\<rparr>"

section \<open>Properties of the registry listing\<close>

lemma frame_before_sub:
  "astype_str (drop_exchange (select_exchange (upper_exchange df))) =
     map (\<lambda>r. \<lparr>cik = str_int (raw_cik r), name = raw_name r, ticker = raw_ticker r\<rparr>) (filter kept df)"
  by (induction df)
     (auto simp: astype_str_def drop_exchange_def select_exchange_def upper_exchange_def kept_def
           split: option.splits)

lemma sub_names_eq:
  "sub_names rs =
     (if \<forall>r \<in> set rs. name r \<noteq> None
      then Inr (map (\<lambda>r. \<lparr>cik = cik r, name = regex_sub (case name r of None \<Rightarrow> [] | Some x \<Rightarrow> x), ticker = ticker r\<rparr>) rs)
      else Inl TypeError)"
  by (induction rs) (auto split: option.splits sum.splits)

lemma sub_names_Inr:
  "sub_names rs = Inr out \<longleftrightarrow>
     (\<forall>r \<in> set rs. name r \<noteq> None) \<and>
     out = map (\<lambda>r. \<lparr>cik = cik r, name = regex_sub (case name r of None \<Rightarrow> [] | Some x \<Rightarrow> x), ticker = ticker r\<rparr>) rs"
  by (auto simp: sub_names_eq)

lemma sub_names_Inl:
  "sub_names rs = Inl e \<longleftrightarrow> e = TypeError \<and> (\<exists>r \<in> set rs. name r = None)"
  by (auto simp: sub_names_eq)

lemma get_cik_eq:
  "get_cik df =
     (if \<forall>r \<in> set df. kept r \<longrightarrow> raw_name r \<noteq> None
      then Inr (map listing_of (filter kept df))
      else Inl TypeError)"
  by (auto simp: get_cik_def frame_before_sub sub_names_eq capwords_names_def listing_of_def)

lemma get_cik_Inr:
  "get_cik df = Inr out \<longleftrightarrow>
     (\<forall>r \<in> set df. kept r \<longrightarrow> raw_name r \<noteq> None) \<and> out = map listing_of (filter kept df)"
  by (auto simp: get_cik_eq)

lemma get_cik_Inl:
  "get_cik df = Inl e \<longleftrightarrow> e = TypeError \<and> (\<exists>r \<in> set df. kept r \<and> raw_name r = None)"
  by (auto simp: get_cik_eq)

lemma below_ten_cases:
  "(k::nat) < 10 \<Longrightarrow> k = 0 \<or> k = 1 \<or> k = 2 \<or> k = 3 \<or> k = 4 \<or> k = 5 \<or> k = 6 \<or> k = 7 \<or> k = 8 \<or> k = 9"
  by arith

lemma digit_chr_is_digit: "is_digit (digit_chr d)"
  using below_ten_cases [of "d mod 10"] by (auto simp: is_digit_def digit_chr_def)

lemma digit_val_digit_chr: "digit_val (digit_chr d) = d mod 10"
  using below_ten_cases [of "d mod 10"] by (auto simp: digit_val_def digit_chr_def upt_conv_Cons)

lemma str_nat_digits: "c \<in> set (str_nat n) \<Longrightarrow> is_digit c"
  by (induction n rule: str_nat.induct) (subst (asm) str_nat.simps, auto simp: digit_chr_is_digit split: if_splits)

lemma length_str_nat: "n < 10 ^ Suc k \<Longrightarrow> length (str_nat n) \<le> Suc k"
proof (induction n arbitrary: k rule: str_nat.induct)
  case (1 n)
  show ?case
  proof (cases "n < 10")
    case True
    then show ?thesis by (subst str_nat.simps) simp
  next
    case False
    then obtain j where k: "k = Suc j" using "1.prems" by (cases k) auto
    have "n div 10 < 10 ^ Suc j" using "1.prems" k by (simp add: less_mult_imp_div_less)
    then have "length (str_nat (n div 10)) \<le> Suc j" using "1.IH" False by simp
    then show ?thesis using False k by (subst str_nat.simps) simp
  qed
qed

lemma int_of_digits_str_nat: "int_of_digits (str_nat n) = int n"
  by (induction n rule: str_nat.induct)
     (subst str_nat.simps, auto simp: int_of_digits_def digit_val_digit_chr)

lemma foldl_zeros: "foldl (\<lambda>a c. 10 * a + digit_val c) 0 (replicate k CHR ''0'') = 0"
proof -
  have z: "digit_val CHR ''0'' = 0" by (simp add: digit_val_def upt_conv_Cons)
  show ?thesis by (induction k) (simp_all add: z)
qed

lemma int_of_digits_pad: "int_of_digits (replicate k CHR ''0'' @ s) = int_of_digits s"
  by (simp add: int_of_digits_def foldl_zeros)

lemmas text_eval =
  regex_sub.simps split_ws.simps capwords_def capitalize_def is_space_def is_sep_def
  is_letter_def upper_def lower_def upper_chr_def lower_chr_def ascii_lowercase_def
  ascii_uppercase_def

lemmas int_eval = str_int_def str_nat.simps digit_chr_def

lemma get_cik_qualcomm:
  "get_cik [qualcomm_raw] = Inr [\<lparr>cik = ''1652044'', name = ''Qualcomm Inc'', ticker = ''qcom''\<rparr>]"
proof -
  have "kept qualcomm_raw"
    by (simp add: kept_def qualcomm_raw_def text_eval)
  moreover have "str_int 1652044 = ''1652044''"
    by (simp add: int_eval)
  moreover have "capwords (regex_sub qualcomm_name) = ''Qualcomm Inc''"
    by (simp add: qualcomm_name_def text_eval)
  ultimately show ?thesis
    by (simp add: get_cik_eq listing_of_def) (simp add: qualcomm_raw_def)
qed

lemma get_cik_apple:
  "get_cik [apple_raw] = Inr [\<lparr>cik = ''320193'', name = ''Apple Inc.'', ticker = ''AAPL''\<rparr>]"
proof -
  have "kept apple_raw"
    by (simp add: kept_def apple_raw_def text_eval)
  moreover have "str_int 320193 = ''320193''"
    by (simp add: int_eval)
  moreover have "capwords (regex_sub ''Apple Inc.'') = ''Apple Inc.''"
    by (simp add: text_eval)
  ultimately show ?thesis
    by (simp add: get_cik_eq listing_of_def) (simp add: apple_raw_def)
qed




lemma kept_iff_on_allow_list: "kept r \<longleftrightarrow> on_allow_list r"
proof -
  have "upper ''NASDAQ'' = ''NASDAQ''" "upper ''NYSE'' = ''NYSE''"
    by (simp_all add: text_eval)
  then show ?thesis
    by (simp add: kept_def on_allow_list_def allow_list_def eq_ci_def split: option.splits)
qed

lemma kept_eq_on_allow_list: "kept = on_allow_list"
  by (rule ext) (rule kept_iff_on_allow_list)

lemma listing_of_rel:
  "list_all2 (\<lambda>l r. cik l = str_int (raw_cik r) \<and> ticker l = raw_ticker r)
     (map listing_of rs) rs"
  by (induction rs) (simp_all add: listing_of_def)

lemma kept_examples:
  "kept apple_raw" "\<not> kept otc_raw" "kept first_dup_raw" "kept second_dup_raw"
  "kept nameless_raw" "\<not> kept unlisted_raw" "kept qualcomm_raw"
  by (simp_all add: kept_def apple_raw_def otc_raw_def first_dup_raw_def second_dup_raw_def
        nameless_raw_def unlisted_raw_def qualcomm_raw_def text_eval)

lemma listing_of_apple:
  "listing_of apple_raw = \<lparr>cik = ''320193'', name = ''Apple Inc.'', ticker = ''AAPL''\<rparr>"
  by (simp add: listing_of_def apple_raw_def int_eval text_eval)


lemma raw_name_examples:
  "raw_name apple_raw \<noteq> None" "raw_name first_dup_raw \<noteq> None" "raw_name second_dup_raw \<noteq> None"
  "raw_name nameless_raw = None" "raw_name qualcomm_raw \<noteq> None"
  by (simp_all add: apple_raw_def first_dup_raw_def second_dup_raw_def nameless_raw_def qualcomm_raw_def)


lemma get_cik_alfa:
  "get_cik [alfa_raw] = Inr [\<lparr>cik = ''5'', name = ''Alfa Corp'', ticker = ''ALFA''\<rparr>]"
proof -
  have "kept alfa_raw"
    by (simp add: kept_def alfa_raw_def text_eval)
  moreover have "listing_of alfa_raw = \<lparr>cik = ''5'', name = ''Alfa Corp'', ticker = ''ALFA''\<rparr>"
    by (simp add: listing_of_def alfa_raw_def int_eval text_eval)
  moreover have "raw_name alfa_raw \<noteq> None"
    by (simp add: alfa_raw_def)
  ultimately show ?thesis
    by (simp add: get_cik_eq)
qed

text \<open>
  Claim C1, as the code has it. For every batch on which \<^verbatim>\<open>get_cik\<close> returns, it renders the
  \<^verbatim>\<open>cik\<close> column with \<^verbatim>\<open>astype(str)\<close> only: each output \<^verbatim>\<open>cik\<close> is the plain decimal
  string of the source integer, without padding. The ten characters are produced by
  \<^verbatim>\<open>search_cik\<close>: when exactly one row of the listing has the queried ticker and the
  identifier of a selected source row with that ticker lies between 0 and
  \<open>10\<^sup>1\<^sup>0 - 1\<close>, it returns a string of exactly ten decimal digits, the row's \<^verbatim>\<open>cik\<close>
  left-padded with \<^verbatim>\<open>'0'\<close>, which denotes the source identifier.
\<close>

theorem search_cik_ten_digits:
  assumes "get_cik cik_data = Inr cik_list"
  shows "map cik cik_list = map (\<lambda>x. str_int (raw_cik x)) (filter kept cik_data) \<and>
         (filter (\<lambda>r. ticker r = upper t) cik_list = [r] \<and>
          (\<forall>x \<in> set cik_data. kept x \<and> raw_ticker x = upper t \<longrightarrow>
                                 0 \<le> raw_cik x \<and> raw_cik x < 10 ^ 10) \<longrightarrow>
          (\<exists>s. search_cik cik_list t = Inr s \<and> length s = 10 \<and> (\<forall>c \<in> set s. is_digit c) \<and>
               s = replicate (10 - length (cik r)) CHR ''0'' @ cik r \<and>
               (\<exists>x \<in> set cik_data. raw_ticker x = upper t \<and> cik r = str_int (raw_cik x) \<and>
                                     int_of_digits s = raw_cik x)))"
proof (rule conjI)
  from assms have out: "cik_list = map listing_of (filter kept cik_data)"
    by (simp add: get_cik_Inr)
  then show "map cik cik_list = map (\<lambda>x. str_int (raw_cik x)) (filter kept cik_data)"
    by (simp add: listing_of_def)
  show "filter (\<lambda>r. ticker r = upper t) cik_list = [r] \<and>
          (\<forall>x \<in> set cik_data. kept x \<and> raw_ticker x = upper t \<longrightarrow>
                                 0 \<le> raw_cik x \<and> raw_cik x < 10 ^ 10) \<longrightarrow>
          (\<exists>s. search_cik cik_list t = Inr s \<and> length s = 10 \<and> (\<forall>c \<in> set s. is_digit c) \<and>
               s = replicate (10 - length (cik r)) CHR ''0'' @ cik r \<and>
               (\<exists>x \<in> set cik_data. raw_ticker x = upper t \<and> cik r = str_int (raw_cik x) \<and>
                                     int_of_digits s = raw_cik x))"
  proof
    assume hyp: "filter (\<lambda>r. ticker r = upper t) cik_list = [r] \<and>
          (\<forall>x \<in> set cik_data. kept x \<and> raw_ticker x = upper t \<longrightarrow>
                                 0 \<le> raw_cik x \<and> raw_cik x < 10 ^ 10)"
    then have one: "filter (\<lambda>r. ticker r = upper t) cik_list = [r]"
      and bounds: "\<forall>x \<in> set cik_data. kept x \<and> raw_ticker x = upper t \<longrightarrow>
                                 0 \<le> raw_cik x \<and> raw_cik x < 10 ^ 10"
      by simp_all
    have "r \<in> set (filter (\<lambda>r. ticker r = upper t) cik_list)"
      using one by simp
    then have "r \<in> set cik_list" and tick: "ticker r = upper t"
      by simp_all
    then obtain x where x: "x \<in> set cik_data" "kept x" "r = listing_of x"
      using out by auto
    have xt: "raw_ticker x = upper t"
      using x(3) tick by (simp add: listing_of_def)
    define n where "n = nat (raw_cik x)"
    have range: "0 \<le> raw_cik x" "raw_cik x < 10 ^ 10"
      using bounds x(1,2) xt by auto
    then have cikr: "cik r = str_nat n"
      using x(3) by (simp add: listing_of_def str_int_def n_def)
    have "n < 10 ^ Suc 9"
      using range by (simp add: n_def)
    then have len: "length (cik r) \<le> 10"
      using length_str_nat [of n 9] cikr by simp
    define s where "s = replicate (10 - length (cik r)) CHR ''0'' @ cik r"
    have "search_cik cik_list t = Inr s"
      using one by (simp add: search_cik_def s_def nat_diff_distrib')
    moreover have "length s = 10"
      using len by (simp add: s_def)
    moreover have "\<forall>c \<in> set s. is_digit c"
    proof
      fix c assume "c \<in> set s"
      then have "c = CHR ''0'' \<or> c \<in> set (str_nat n)"
        by (auto simp: s_def cikr)
      moreover have "is_digit CHR ''0''"
        by (simp add: is_digit_def)
      ultimately show "is_digit c"
        using str_nat_digits by blast
    qed
    moreover have "int_of_digits s = raw_cik x"
      using range by (simp add: s_def cikr int_of_digits_pad int_of_digits_str_nat n_def)
    moreover have "cik r = str_int (raw_cik x)"
      using x(3) by (simp add: listing_of_def)
    ultimately have
      "search_cik cik_list t = Inr s \<and> length s = 10 \<and> (\<forall>c \<in> set s. is_digit c) \<and>
       s = replicate (10 - length (cik r)) CHR ''0'' @ cik r \<and>
       (\<exists>x \<in> set cik_data. raw_ticker x = upper t \<and> cik r = str_int (raw_cik x) \<and>
                             int_of_digits s = raw_cik x)"
      using x(1) xt s_def by blast
    then show
      "\<exists>s. search_cik cik_list t = Inr s \<and> length s = 10 \<and> (\<forall>c \<in> set s. is_digit c) \<and>
       s = replicate (10 - length (cik r)) CHR ''0'' @ cik r \<and>
       (\<exists>x \<in> set cik_data. raw_ticker x = upper t \<and> cik r = str_int (raw_cik x) \<and>
                             int_of_digits s = raw_cik x)"
      by (rule exI)
  qed
qed

theorem search_cik_ten_digits_witness:
  "get_cik [qualcomm_raw] =
     Inr [\<lparr>cik = ''1652044'', name = ''Qualcomm Inc'', ticker = ''qcom''\<rparr>] \<and>
   map cik [\<lparr>cik = ''1652044'', name = ''Qualcomm Inc'', ticker = ''qcom''\<rparr>] =
     map (\<lambda>x. str_int (raw_cik x)) (filter kept [qualcomm_raw]) \<and>
   get_cik [apple_raw] = Inr [\<lparr>cik = ''320193'', name = ''Apple Inc.'', ticker = ''AAPL''\<rparr>] \<and>
   filter (\<lambda>r. ticker r = upper ''aapl'')
     [\<lparr>cik = ''320193'', name = ''Apple Inc.'', ticker = ''AAPL''\<rparr>] =
     [\<lparr>cik = ''320193'', name = ''Apple Inc.'', ticker = ''AAPL''\<rparr>] \<and>
   0 \<le> raw_cik apple_raw \<and> raw_cik apple_raw < 10 ^ 10 \<and>
   search_cik [\<lparr>cik = ''320193'', name = ''Apple Inc.'', ticker = ''AAPL''\<rparr>] ''aapl'' =
     Inr ''0000320193''"
proof -
  have plain: "map cik [\<lparr>cik = ''1652044'', name = ''Qualcomm Inc'', ticker = ''qcom''\<rparr>] =
     map (\<lambda>x. str_int (raw_cik x)) (filter kept [qualcomm_raw])"
    using search_cik_ten_digits [OF get_cik_qualcomm] by (rule conjunct1)
  have h1: "get_cik [apple_raw] = Inr [\<lparr>cik = ''320193'', name = ''Apple Inc.'', ticker = ''AAPL''\<rparr>]"
    by (rule get_cik_apple)
  have h2: "filter (\<lambda>r. ticker r = upper ''aapl'')
     [\<lparr>cik = ''320193'', name = ''Apple Inc.'', ticker = ''AAPL''\<rparr>] =
     [\<lparr>cik = ''320193'', name = ''Apple Inc.'', ticker = ''AAPL''\<rparr>]"
    by (simp add: text_eval)
  have h3: "0 \<le> raw_cik apple_raw" "raw_cik apple_raw < 10 ^ 10"
    by (simp_all add: apple_raw_def)
  then have h3': "\<forall>x \<in> set [apple_raw]. kept x \<and> raw_ticker x = upper ''aapl'' \<longrightarrow>
                      0 \<le> raw_cik x \<and> raw_cik x < 10 ^ 10"
    by simp
  from search_cik_ten_digits [OF h1, of "''aapl''"
      "\<lparr>cik = ''320193'', name = ''Apple Inc.'', ticker = ''AAPL''\<rparr>"] h2 h3'
  obtain s where
    "search_cik [\<lparr>cik = ''320193'', name = ''Apple Inc.'', ticker = ''AAPL''\<rparr>] ''aapl'' = Inr s"
    "s = replicate (10 - length (cik \<lparr>cik = ''320193'', name = ''Apple Inc.'', ticker = ''AAPL''\<rparr>))
           CHR ''0'' @ cik \<lparr>cik = ''320193'', name = ''Apple Inc.'', ticker = ''AAPL''\<rparr>"
    by blast
  then have "search_cik [\<lparr>cik = ''320193'', name = ''Apple Inc.'', ticker = ''AAPL''\<rparr>] ''aapl'' =
     Inr ''0000320193''"
    by (simp add: numeral_eq_Suc)
  then show ?thesis
    using plain get_cik_qualcomm h1 h2 h3 by blast
qed

text \<open>
  Claim C1 as stated fails on the scenario row of the specification: the \<^verbatim>\<open>cik\<close> that
  \<^verbatim>\<open>get_cik\<close> puts out for identifier 1652044 has seven characters.
\<close>

theorem get_cik_cik_is_not_padded:
  "get_cik [qualcomm_raw] = Inr [\<lparr>cik = ''1652044'', name = ''Qualcomm Inc'', ticker = ''qcom''\<rparr>]
   \<and> length (cik \<lparr>cik = ''1652044'', name = ''Qualcomm Inc'', ticker = ''qcom''\<rparr>) \<noteq> 10"
  by (simp add: get_cik_qualcomm)

text \<open>
  Claim C5, as the code has it. When every row on the allow-list has its name,
  \<^verbatim>\<open>get_cik\<close> returns, and its output holds one record for each source row whose
  exchange, compared case-insensitively, is \<^verbatim>\<open>NASDAQ\<close> or \<^verbatim>\<open>NYSE\<close>, in the order of the
  source and with the identifier and the ticker of that row, and no other record: a row
  appears in the output if and only if it is on the allow-list, so a row with exchange
  \<^verbatim>\<open>OTC\<close> is left out. An output record has the three fields \<^verbatim>\<open>cik\<close>, \<^verbatim>\<open>name\<close> and
  \<^verbatim>\<open>ticker\<close> and no exchange. When a row on the allow-list has no name, \<^verbatim>\<open>get_cik\<close> raises
  \<^verbatim>\<open>TypeError\<close> and there is no output.
\<close>

theorem get_cik_selects_allow_list:
  "((\<forall>r \<in> set cik_data. on_allow_list r \<longrightarrow> raw_name r \<noteq> None) \<longrightarrow>
      (\<exists>out. get_cik cik_data = Inr out \<and>
         list_all2 (\<lambda>l r. cik l = str_int (raw_cik r) \<and> ticker l = raw_ticker r)
           out (filter on_allow_list cik_data))) \<and>
   ((\<exists>r \<in> set cik_data. on_allow_list r \<and> raw_name r = None) \<longrightarrow>
      get_cik cik_data = Inl TypeError)"
proof (intro conjI impI)
  assume "\<forall>r \<in> set cik_data. on_allow_list r \<longrightarrow> raw_name r \<noteq> None"
  then have "get_cik cik_data = Inr (map listing_of (filter on_allow_list cik_data))"
    by (simp add: get_cik_eq kept_eq_on_allow_list)
  then show "\<exists>out. get_cik cik_data = Inr out \<and>
         list_all2 (\<lambda>l r. cik l = str_int (raw_cik r) \<and> ticker l = raw_ticker r)
           out (filter on_allow_list cik_data)"
    using listing_of_rel by blast
next
  assume "\<exists>r \<in> set cik_data. on_allow_list r \<and> raw_name r = None"
  then show "get_cik cik_data = Inl TypeError"
    by (auto simp: get_cik_eq kept_eq_on_allow_list)
qed

theorem get_cik_selects_allow_list_witness:
  "on_allow_list apple_raw \<and> raw_name apple_raw \<noteq> None \<and> \<not> on_allow_list otc_raw \<and>
   get_cik [otc_raw, apple_raw] =
     Inr [\<lparr>cik = ''320193'', name = ''Apple Inc.'', ticker = ''AAPL''\<rparr>] \<and>
   on_allow_list nameless_raw \<and> raw_name nameless_raw = None \<and>
   get_cik [nameless_raw] = Inl TypeError"
proof -
  have sel: "on_allow_list apple_raw" "\<not> on_allow_list otc_raw" "on_allow_list nameless_raw"
    using kept_examples by (simp_all add: kept_iff_on_allow_list)
  have nm: "raw_name apple_raw \<noteq> None" "raw_name nameless_raw = None"
    by (simp_all add: raw_name_examples)
  have "\<forall>r \<in> set [otc_raw, apple_raw]. on_allow_list r \<longrightarrow> raw_name r \<noteq> None"
    using sel nm by simp
  with get_cik_selects_allow_list [of "[otc_raw, apple_raw]"] obtain out where
    out: "get_cik [otc_raw, apple_raw] = Inr out"
    by blast
  then have "out = [listing_of apple_raw]"
    using kept_examples by (simp add: get_cik_Inr)
  with out have ok: "get_cik [otc_raw, apple_raw] =
     Inr [\<lparr>cik = ''320193'', name = ''Apple Inc.'', ticker = ''AAPL''\<rparr>]"
    by (simp add: listing_of_apple)
  have "\<exists>r \<in> set [nameless_raw]. on_allow_list r \<and> raw_name r = None"
    using sel nm by simp
  with get_cik_selects_allow_list [of "[nameless_raw]"]
  have "get_cik [nameless_raw] = Inl TypeError"
    by blast
  with ok sel nm show ?thesis
    by blast
qed

text \<open>
  Claim C5 as stated, for every batch, fails on a batch of the Apple row followed by a
  row of the allow-list without name: the Apple row is on the allow-list and yet in no
  output, since the call raises.
\<close>

theorem get_cik_allow_listed_row_without_output:
  "on_allow_list apple_raw \<and> apple_raw \<in> set [apple_raw, nameless_raw] \<and>
   get_cik [apple_raw, nameless_raw] = Inl TypeError"
  using kept_examples raw_name_examples
  by (simp add: get_cik_eq kept_iff_on_allow_list [symmetric])







text \<open>
  Claim C8, as the code has it. \<^verbatim>\<open>get_cik\<close> handles no error record by record and records
  no warning; its result is either the listing or one exception. A row without exchange is
  dropped by the selection, and the batch is processed as if the row were not there. A
  selected row without name makes the whole call fail with \<^verbatim>\<open>TypeError\<close>, whatever the
  other rows are: no output is produced.
\<close>

theorem get_cik_has_no_record_level_errors:
  "(exchange r = None \<longrightarrow> get_cik (xs @ r # ys) = get_cik (xs @ ys)) \<and>
   (kept r \<and> raw_name r = None \<longrightarrow> get_cik (xs @ r # ys) = Inl TypeError)"
proof -
  have "\<not> kept r" if "exchange r = None"
    using that by (simp add: kept_def)
  then show ?thesis
    by (auto simp: get_cik_eq)
qed

theorem get_cik_has_no_record_level_errors_witness:
  "exchange unlisted_raw = None \<and> get_cik ([] @ unlisted_raw # [apple_raw]) = get_cik ([] @ [apple_raw]) \<and>
   kept nameless_raw \<and> raw_name nameless_raw = None \<and>
   get_cik ([] @ nameless_raw # [apple_raw]) = Inl TypeError"
proof -
  have h: "exchange unlisted_raw = None" "kept nameless_raw" "raw_name nameless_raw = None"
    using kept_examples raw_name_examples by (simp_all add: unlisted_raw_def)
  with get_cik_has_no_record_level_errors [of unlisted_raw "[]" "[apple_raw]"]
    get_cik_has_no_record_level_errors [of nameless_raw "[]" "[apple_raw]"]
  show ?thesis
    by blast
qed

text \<open>
  Claim C8 as stated fails on a batch of a selected row without name followed by a
  well-formed row: the well-formed row is not processed into any output.
\<close>

theorem get_cik_aborts_on_missing_name:
  "get_cik [nameless_raw, apple_raw] = Inl TypeError"
  using kept_examples raw_name_examples by (simp add: get_cik_eq)

text \<open>
  Claim C6 at the name \<^verbatim>\<open>Alfa/Sub Corp\<close>. The comment in \<^verbatim>\<open>get_cik\<close> says that all
  characters after a slash or backslash are removed, which leaves \<^verbatim>\<open>Alfa\<close>, and the claim
  makes the output the title case of the name without a suffix, that is of a prefix of
  the name. The code deletes the token \<^verbatim>\<open>/Sub\<close> only and keeps what follows it: the output
  name is \<^verbatim>\<open>Alfa Corp\<close>, which is \<^verbatim>\<open>capwords\<close> of no prefix of the source name.
\<close>

theorem get_cik_name_inner_token_removed:
  "get_cik [alfa_raw] = Inr [\<lparr>cik = ''5'', name = ''Alfa Corp'', ticker = ''ALFA''\<rparr>] \<and>
   raw_name alfa_raw = Some ''Alfa/Sub Corp'' \<and>
   capwords (takeWhile (\<lambda>c. \<not> is_sep c) ''Alfa/Sub Corp'') = ''Alfa'' \<and>
   ''Alfa Corp'' \<notin> set (map capwords (prefixes ''Alfa/Sub Corp''))"
proof -
  have "''Alfa Corp'' \<notin> set (map capwords (prefixes ''Alfa/Sub Corp''))"
    by (simp add: text_eval)
  moreover have "capwords (takeWhile (\<lambda>c. \<not> is_sep c) ''Alfa/Sub Corp'') = ''Alfa''"
    by (simp add: text_eval)
  ultimately show ?thesis
    by (simp add: get_cik_alfa) (simp add: alfa_raw_def)
qed

section \<open>Properties of the choice of exchange\<close>

lemma call_not_NotAvailable:
  "(\<And>a. k a \<noteq> Inl NotAvailable) \<Longrightarrow> call r k \<noteq> Inl NotAvailable"
  by (cases r) (simp_all add: call_def)

lemma report_not_NotAvailable: "report env m web tof \<noteq> Inl NotAvailable"
  by (simp add: report_def call_not_NotAvailable)

text \<open>
  Claim C10. \<^verbatim>\<open>Market\<close> keeps the upper case of its country code. When that is neither
  \<^verbatim>\<open>USA\<close> nor \<^verbatim>\<open>KOR\<close>, \<^verbatim>\<open>financial_statement\<close> and \<^verbatim>\<open>historical_price\<close> both raise
  \<^verbatim>\<open>NotAvailable\<close> and return no data, whatever the collaborators would do. When it is
  \<^verbatim>\<open>USA\<close> or \<^verbatim>\<open>KOR\<close>, which covers every letter case of the two codes, neither method ends
  in the \<^verbatim>\<open>NotAvailable\<close> of its \<^verbatim>\<open>else\<close> branch.
\<close>

theorem market_not_available_iff:
  "(upper c \<noteq> ''USA'' \<and> upper c \<noteq> ''KOR'' \<longrightarrow>
      financial_statement fenv (Market c) symbol financial period web tof = Inl NotAvailable \<and>
      historical_price penv (Market c) symbol start end = Inl NotAvailable) \<and>
   (upper c = ''USA'' \<or> upper c = ''KOR'' \<longrightarrow>
      financial_statement fenv (Market c) symbol financial period web tof \<noteq> Inl NotAvailable \<and>
      historical_price penv (Market c) symbol start end \<noteq> Inl NotAvailable)"
proof -
  have "financial_statement fenv (Market c) symbol financial period web tof = Inl NotAvailable"
    if "upper c \<noteq> ''USA''" "upper c \<noteq> ''KOR''"
    using that by (simp add: financial_statement_def Market_def)
  moreover have "historical_price penv (Market c) symbol start end = Inl NotAvailable"
    if "upper c \<noteq> ''USA''" "upper c \<noteq> ''KOR''"
    using that by (simp add: historical_price_def Market_def)
  moreover have "financial_statement fenv (Market c) symbol financial period web tof \<noteq> Inl NotAvailable"
    if "upper c = ''USA'' \<or> upper c = ''KOR''"
    using that
    by (auto simp: financial_statement_def Market_def
          intro!: call_not_NotAvailable report_not_NotAvailable)
  moreover have "historical_price penv (Market c) symbol start end \<noteq> Inl NotAvailable"
    if "upper c = ''USA'' \<or> upper c = ''KOR''"
    using that by (auto simp: historical_price_def Market_def intro!: call_not_NotAvailable)
  ultimately show ?thesis
    by blast
qed

theorem market_not_available_iff_witness:
  "upper ''jpn'' \<noteq> ''USA'' \<and> upper ''jpn'' \<noteq> ''KOR'' \<and>
   financial_statement demo_financials (Market ''jpn'') ''7203'' ''income_statement'' ''annual''
     False None = Inl NotAvailable \<and>
   historical_price demo_prices (Market ''jpn'') ''7203'' 0 1 = Inl NotAvailable \<and>
   upper ''Usa'' = ''USA'' \<and>
   financial_statement demo_financials (Market ''Usa'') ''AAPL'' ''income_statement'' ''annual''
     False None \<noteq> Inl NotAvailable \<and>
   historical_price demo_prices (Market ''Usa'') ''AAPL'' 0 1 \<noteq> Inl NotAvailable \<and>
   financial_statement demo_financials (Market ''Usa'') ''AAPL'' ''income_statement'' ''annual''
     False None = Inr (Some ''reported us:AAPL'')"
proof -
  have up: "upper ''jpn'' = ''JPN''" "upper ''Usa'' = ''USA''"
    by (simp_all add: text_eval)
  have "financial_statement demo_financials (Market ''jpn'') ''7203'' ''income_statement'' ''annual''
     False None = Inl NotAvailable"
    and "historical_price demo_prices (Market ''jpn'') ''7203'' 0 1 = Inl NotAvailable"
    using market_not_available_iff [of "''jpn''" demo_financials "''7203''" "''income_statement''"
        "''annual''" False None demo_prices 0 1] up
    by simp_all
  moreover have "financial_statement demo_financials (Market ''Usa'') ''AAPL'' ''income_statement''
     ''annual'' False None \<noteq> Inl NotAvailable"
    and "historical_price demo_prices (Market ''Usa'') ''AAPL'' 0 1 \<noteq> Inl NotAvailable"
    using market_not_available_iff [of "''Usa''" demo_financials "''AAPL''" "''income_statement''"
        "''annual''" False None demo_prices 0 1] up
    by simp_all
  moreover have "financial_statement demo_financials (Market ''Usa'') ''AAPL'' ''income_statement''
     ''annual'' False None = Inr (Some ''reported us:AAPL'')"
    by (simp add: financial_statement_def Market_def up report_def call_def demo_financials_def)
  ultimately show ?thesis
    using up by simp
qed

section \<open>Properties of the scripts\<close>

lemma demo_config_lookup:
  "demo_config ''user'' = Some [''mysql_password'' \<mapsto> ''secret'']"
  "[''mysql_password'' \<mapsto> ''secret''] ''mysql_password'' = Some ''secret''"
  by (simp_all add: demo_config_def)

text \<open>
  Claim C9, as the code has it. With the password read from the configuration,
  \<^verbatim>\<open>connect_db\<close> does not pass a failed construction of \<^verbatim>\<open>Database\<close> on to its caller: an
  \<^verbatim>\<open>Exception\<close> raised by the constructor is caught, its text is printed, and the function
  returns \<^verbatim>\<open>None\<close>. What propagates is an exception that is not under \<^verbatim>\<open>Exception\<close>, and
  a failure to open or parse the configuration, which happens before the \<^verbatim>\<open>try\<close>. A
  constructed database is returned and nothing is printed.
\<close>

theorem connect_db_swallows_constructor_failure:
  assumes "config ''user'' = Some user" and "user ''mysql_password'' = Some mysql_pw"
  shows "(Database mysql_pw ''us_stock'' ''stock_list'' = Inl (Exception e) \<longrightarrow>
            connect_db (Inr config) Database out = (Inr None, out @ [e])) \<and>
         (Database mysql_pw ''us_stock'' ''stock_list'' = Inl (BaseException e) \<longrightarrow>
            connect_db (Inr config) Database out = (Inl (BaseException e), out)) \<and>
         (Database mysql_pw ''us_stock'' ''stock_list'' = Inr db \<longrightarrow>
            connect_db (Inr config) Database out = (Inr (Some db), out)) \<and>
         connect_db (Inl x) Database out = (Inl x, out)"
  using assms by (simp add: connect_db_def)

theorem connect_db_swallows_constructor_failure_witness:
  "demo_config ''user'' = Some [''mysql_password'' \<mapsto> ''secret''] \<and>
   [''mysql_password'' \<mapsto> ''secret''] ''mysql_password'' = Some ''secret'' \<and>
   refusing_Database ''secret'' ''us_stock'' ''stock_list'' = Inl (Exception ''Access denied'') \<and>
   connect_db (Inr demo_config) refusing_Database [] = (Inr None, [''Access denied''])"
proof -
  have "refusing_Database ''secret'' ''us_stock'' ''stock_list'' = Inl (Exception ''Access denied'')"
    by (simp add: refusing_Database_def)
  with connect_db_swallows_constructor_failure [where config = demo_config
      and user = "[''mysql_password'' \<mapsto> ''secret'']" and mysql_pw = "''secret''"
      and Database = refusing_Database and e = "''Access denied''" and out = "[]"]
    demo_config_lookup
  show ?thesis
    by simp
qed

text \<open>
  Claim C9 as stated fails when the constructor raises \<^verbatim>\<open>Exception('Access denied')\<close>: the
  caller of \<^verbatim>\<open>connect_db\<close> gets \<^verbatim>\<open>None\<close> and no exception.
\<close>

theorem connect_db_returns_None_on_failure:
  "connect_db (Inr demo_config) refusing_Database [] = (Inr None, [''Access denied'']) \<and>
   fst (connect_db (Inr demo_config) refusing_Database []) \<noteq> Inl (Exception ''Access denied'')"
  by (simp add: connect_db_def demo_config_def refusing_Database_def)

text \<open>
  Claim C2, as the code has it. The main script never writes the persisted table: after
  every run, failed or not, the table is the one the run started with. A run in which the
  four calls succeed prints the difference that \<^verbatim>\<open>check_diff\<close> returns for the table read
  and the latest listing, and does nothing else.
\<close>

theorem main_prints_diff_keeps_snapshot:
  "snapshot (snd (main env pw w)) = snapshot w \<and>
   (stocklist_get_stock_list env = Inr latest \<and> database_Database env pw ''us_stock'' = Inr db \<and>
    db_read_db env db (snapshot w) = Inr old \<and> stocklist_check_diff env old latest = Inr diff \<longrightarrow>
      main env pw w = (Inr (), w\<lparr>stdout := stdout w @ [diff]\<rparr>))"
  by (simp add: main_def split: sum.splits)

theorem main_prints_diff_keeps_snapshot_witness:
  "stocklist_get_stock_list demo_stock_env = Inr [''AAPL'', ''AMZN''] \<and>
   database_Database demo_stock_env '''' ''us_stock'' = Inr () \<and>
   db_read_db demo_stock_env () (snapshot \<lparr>snapshot = [''AAPL''], stdout = []\<rparr>) = Inr [''AAPL''] \<and>
   stocklist_check_diff demo_stock_env [''AAPL''] [''AAPL'', ''AMZN''] = Inr [''AMZN''] \<and>
   main demo_stock_env '''' \<lparr>snapshot = [''AAPL''], stdout = []\<rparr> =
     (Inr (), \<lparr>snapshot = [''AAPL''], stdout = [[''AMZN'']]\<rparr>)"
proof -
  have h: "stocklist_get_stock_list demo_stock_env = Inr [''AAPL'', ''AMZN'']"
    "database_Database demo_stock_env '''' ''us_stock'' = Inr ()"
    "db_read_db demo_stock_env () (snapshot \<lparr>snapshot = [''AAPL''], stdout = []\<rparr>) = Inr [''AAPL'']"
    "stocklist_check_diff demo_stock_env [''AAPL''] [''AAPL'', ''AMZN''] = Inr [''AMZN'']"
    by (simp_all add: demo_stock_env_def)
  with main_prints_diff_keeps_snapshot [of demo_stock_env "''''"
      "\<lparr>snapshot = [''AAPL''], stdout = []\<rparr>" "[''AAPL'', ''AMZN'']" "()" "[''AAPL'']" "[''AMZN'']"]
  show ?thesis
    by simp
qed

text \<open>
  Claim C2 as stated fails for a run that starts from an empty table: the run succeeds
  and prints the difference, and the table is still empty, not the latest listing.
\<close>

theorem main_leaves_empty_store_empty:
  "main demo_stock_env '''' \<lparr>snapshot = [], stdout = []\<rparr> =
     (Inr (), \<lparr>snapshot = [], stdout = [[''AAPL'', ''AMZN'']]\<rparr>) \<and>
   stocklist_get_stock_list demo_stock_env = Inr [''AAPL'', ''AMZN''] \<and>
   snapshot (snd (main demo_stock_env '''' \<lparr>snapshot = [], stdout = []\<rparr>)) \<noteq> [''AAPL'', ''AMZN'']"
  by (simp add: main_def demo_stock_env_def)

section \<open>Properties of the differ\<close>

lemma has_ticker_iff: "has_ticker X t \<longleftrightarrow> t \<in> ticker ` set X"
  by (auto simp: has_ticker_def list_ex_iff)

lemma canonical_same_ticker:
  assumes "canonical X" and "p \<in> set X" and "l \<in> set X" and "ticker p = ticker l"
  shows "p = l"
proof -
  have "inj_on ticker (set X)"
    using assms(1) by (simp add: canonical_def distinct_map)
  then show ?thesis
    using assms(2-4) by (auto dest: inj_onD)
qed

text \<open>
  Claim C7. For every canonical listing, the difference of the listing with itself is the
  empty changeset: nothing added, nothing removed, nothing changed.
\<close>

theorem check_diff_self_empty:
  assumes "canonical X"
  shows "check_diff X X = \<lparr>added = {}, removed = {}, changed = {}\<rparr>"
proof -
  have "filter (\<lambda>r. \<not> has_ticker X (ticker r)) X = []"
    by (simp add: has_ticker_iff filter_empty_conv)
  moreover have "filter (\<lambda>(p, l). ticker p = ticker l \<and> (cik p \<noteq> cik l \<or> name p \<noteq> name l))
      (List.product X X) = []"
    using canonical_same_ticker [OF assms] by (auto simp: filter_empty_conv)
  ultimately show ?thesis
    by (simp add: check_diff_def)
qed

theorem check_diff_self_empty_witness:
  "canonical [apple_listing, amazon_listing] \<and>
   check_diff [apple_listing, amazon_listing] [apple_listing, amazon_listing] =
     \<lparr>added = {}, removed = {}, changed = {}\<rparr>"
proof -
  have "canonical [apple_listing, amazon_listing]"
    by (simp add: canonical_def apple_listing_def amazon_listing_def)
  with check_diff_self_empty [of "[apple_listing, amazon_listing]"] show ?thesis
    by simp
qed

end
